theory Spec2Isabelle
  imports Main
begin

section \<open>Python values, errors and the object store\<close>

text \<open>
  The exceptions that \<^verbatim>\<open>ch07/doubleLinkNode.py\<close> can raise. \<open>TypeError\<close> and
  \<open>ValueError\<close> are raised by \<^verbatim>\<open>PositionalList._validate\<close>. \<open>AttributeError\<close> is
  raised by the interpreter when an attribute is read or written on \<^verbatim>\<open>None\<close>, when
  one is assigned on an object whose \<^verbatim>\<open>__slots__\<close> do not list it, and when one that
  is not set is read. \<open>NameError\<close> is raised by the interpreter when a name is evaluated
  that the module does not define. \<open>DanglingReference\<close> is not a Python exception: it is
  the outcome of following an address that holds no object, or of using as a node a
  value that is none; a Python program can do neither, and the case is kept apart so
  that no result below is confused with one.
\<close>

datatype error =
    TypeError string
  | ValueError string
  | AttributeError string
  | NameError string
  | DanglingReference

text \<open>A reference is an address or \<^verbatim>\<open>None\<close>.\<close>

type_synonym ref = "nat option"

text \<open>
  A \<^verbatim>\<open>_DoublyLinkedBase\<close> instance (a \<^verbatim>\<open>LinkedDeque\<close> or a
  \<^verbatim>\<open>PositionalList\<close>): two sentinel references and the count.
\<close>

record dll =
  d_header :: ref
  d_trailer :: ref
  d_size :: int

text \<open>\<^verbatim>\<open>PositionalList.Position\<close>: the container and the node it was made for.\<close>

record Position =
  p_container :: nat
  p_node :: ref

subsection \<open>Computations that change the store and may raise\<close>

type_synonym ('s, 'a) prog = "'s \<Rightarrow> (error + 'a) \<times> 's"

definition ret :: "'a \<Rightarrow> ('s, 'a) prog" where
  "ret x = (\<lambda>s. (Inr x, s))"

definition throw :: "error \<Rightarrow> ('s, 'a) prog" where
  "throw e = (\<lambda>s. (Inl e, s))"

definition bnd :: "('s, 'a) prog \<Rightarrow> ('a \<Rightarrow> ('s, 'b) prog) \<Rightarrow> ('s, 'b) prog" where
  "bnd m f = (\<lambda>s. case m s of (Inl e, s') \<Rightarrow> (Inl e, s') | (Inr x, s') \<Rightarrow> f x s')"

section \<open>The slots of \<^verbatim>\<open>_Node\<close>\<close>

text \<open>
  \<^verbatim>\<open>_Node\<close> declares \<^verbatim>\<open>__slots__ = 'element', '_prev', '_next'\<close>. An instance of a
  class with \<^verbatim>\<open>__slots__\<close> and no \<^verbatim>\<open>__dict__\<close> has the listed attributes only;
  assigning any other raises \<^verbatim>\<open>AttributeError\<close>. \<open>Node_init\<close> is the constructor's
  body, its three assignments in order, on an instance with no attribute set yet.
\<close>

definition Node_slots :: "string list" where
  "Node_slots = [''element'', ''_prev'', ''_next'']"

datatype 'a attribute = Element_value "'a option" | Node_reference ref

definition setattr_slots ::
    "string list \<Rightarrow> string \<Rightarrow> 'v \<Rightarrow> (string \<rightharpoonup> 'v) \<Rightarrow> error + (string \<rightharpoonup> 'v)" where
  "setattr_slots slots name v obj =
     (if name \<in> set slots then Inr (obj(name \<mapsto> v))
      else Inl (AttributeError (''_Node object has no attribute '' @ name)))"

definition Node_init :: "'a option \<Rightarrow> ref \<Rightarrow> ref \<Rightarrow> error + (string \<rightharpoonup> 'a attribute)" where
  "Node_init element prev next =
     (case setattr_slots Node_slots ''_element'' (Element_value element) Map.empty of
        Inl err \<Rightarrow> Inl err
      | Inr self1 \<Rightarrow>
          (case setattr_slots Node_slots ''_prev'' (Node_reference prev) self1 of
             Inl err \<Rightarrow> Inl err
           | Inr self2 \<Rightarrow> setattr_slots Node_slots ''_next'' (Node_reference next) self2))"

section \<open>The store\<close>

text \<open>
  The store: \<^verbatim>\<open>_Node\<close> instances (each the attributes set on it) and list instances,
  by address. Objects are never freed, so a new object takes the next address.
\<close>

record 'a world =
  nodes :: "(string \<rightharpoonup> 'a attribute) list"
  lists :: "dll list"

definition empty_world :: "'a world" where
  "empty_world = \<lparr>nodes = [], lists = []\<rparr>"

definition lookup :: "'b list \<Rightarrow> nat \<Rightarrow> 'b option" where
  "lookup xs a = (if a < length xs then Some (xs ! a) else None)"

subsection \<open>Attribute access\<close>

text \<open>
  Reading an attribute of the node a reference points to: \<^verbatim>\<open>None\<close> has none of the
  three, and a node has those that have been set on it.
\<close>

definition getattr_node :: "ref \<Rightarrow> string \<Rightarrow> ('a world, 'a attribute) prog" where
  "getattr_node r name = (\<lambda>w.
     case r of
       None \<Rightarrow> (Inl (AttributeError (''NoneType object has no attribute '' @ name)), w)
     | Some a \<Rightarrow>
         (case lookup (nodes w) a of
            None \<Rightarrow> (Inl DanglingReference, w)
          | Some obj \<Rightarrow>
              (case obj name of
                 None \<Rightarrow> (Inl (AttributeError (''_Node object has no attribute '' @ name)), w)
               | Some v \<Rightarrow> (Inr v, w))))"

text \<open>Assigning an attribute of the node a reference points to, under the slots.\<close>

definition setattr_node :: "ref \<Rightarrow> string \<Rightarrow> 'a attribute \<Rightarrow> ('a world, unit) prog" where
  "setattr_node r name v = (\<lambda>w.
     case r of
       None \<Rightarrow> (Inl (AttributeError (''NoneType object has no attribute '' @ name)), w)
     | Some a \<Rightarrow>
         (case lookup (nodes w) a of
            None \<Rightarrow> (Inl DanglingReference, w)
          | Some obj \<Rightarrow>
              (case setattr_slots Node_slots name v obj of
                 Inl err \<Rightarrow> (Inl err, w)
               | Inr obj' \<Rightarrow> (Inr (), w\<lparr>nodes := (nodes w)[a := obj']\<rparr>))))"

text \<open>
  The code assigns references only to \<^verbatim>\<open>_prev\<close> and \<^verbatim>\<open>_next\<close> and elements only to
  \<^verbatim>\<open>_element\<close>, so a link read is a reference and an element read is an element.
\<close>

definition as_reference :: "'a attribute \<Rightarrow> ('a world, ref) prog" where
  "as_reference v = (case v of Node_reference x \<Rightarrow> ret x | Element_value x \<Rightarrow> throw DanglingReference)"

definition as_element :: "'a attribute \<Rightarrow> ('a world, 'a option) prog" where
  "as_element v = (case v of Element_value x \<Rightarrow> ret x | Node_reference x \<Rightarrow> throw DanglingReference)"

definition get_element :: "ref \<Rightarrow> ('a world, 'a option) prog" where
  "get_element r = bnd (getattr_node r ''_element'') as_element"

definition get_prev :: "ref \<Rightarrow> ('a world, ref) prog" where
  "get_prev r = bnd (getattr_node r ''_prev'') as_reference"

definition get_next :: "ref \<Rightarrow> ('a world, ref) prog" where
  "get_next r = bnd (getattr_node r ''_next'') as_reference"

definition set_element :: "ref \<Rightarrow> 'a option \<Rightarrow> ('a world, unit) prog" where
  "set_element r v = setattr_node r ''_element'' (Element_value v)"

definition set_prev :: "ref \<Rightarrow> ref \<Rightarrow> ('a world, unit) prog" where
  "set_prev r v = setattr_node r ''_prev'' (Node_reference v)"

definition set_next :: "ref \<Rightarrow> ref \<Rightarrow> ('a world, unit) prog" where
  "set_next r v = setattr_node r ''_next'' (Node_reference v)"

text \<open>The fields of a list instance; \<open>self\<close> is its address.\<close>

definition get_self :: "nat \<Rightarrow> ('a world, dll) prog" where
  "get_self self = (\<lambda>w.
     case lookup (lists w) self of
       None \<Rightarrow> (Inl DanglingReference, w)
     | Some d \<Rightarrow> (Inr d, w))"

definition get_header :: "nat \<Rightarrow> ('a world, ref) prog" where
  "get_header self = bnd (get_self self) (\<lambda>d. ret (d_header d))"

definition get_trailer :: "nat \<Rightarrow> ('a world, ref) prog" where
  "get_trailer self = bnd (get_self self) (\<lambda>d. ret (d_trailer d))"

definition get_size :: "nat \<Rightarrow> ('a world, int) prog" where
  "get_size self = bnd (get_self self) (\<lambda>d. ret (d_size d))"

definition set_size :: "nat \<Rightarrow> int \<Rightarrow> ('a world, unit) prog" where
  "set_size self k = bnd (get_self self) (\<lambda>d. (\<lambda>w.
     (Inr (), w\<lparr>lists := (lists w)[self := d\<lparr>d_size := k\<rparr>]\<rparr>)))"

section \<open>\<^verbatim>\<open>_DoublyLinkedBase\<close>\<close>

text \<open>
  \<^verbatim>\<open>_Node(element, prev, next)\<close>: the constructor's body runs on a new instance; if
  it raises, nothing is stored, and otherwise the instance takes the next address.
\<close>

definition Node_new :: "'a option \<Rightarrow> ref \<Rightarrow> ref \<Rightarrow> ('a world, ref) prog" where
  "Node_new e p n = (\<lambda>w.
     case Node_init e p n of
       Inl err \<Rightarrow> (Inl err, w)
     | Inr obj \<Rightarrow> (Inr (Some (length (nodes w))), w\<lparr>nodes := nodes w @ [obj]\<rparr>))"

text \<open>
  \<^verbatim>\<open>__init__\<close>: two sentinels linked to each other, size 0. The instance has no
  other attribute and none is read before all three are assigned, so the model creates
  it with the three at once and returns its address.
\<close>

definition new_instance :: "ref \<Rightarrow> ref \<Rightarrow> int \<Rightarrow> ('a world, nat) prog" where
  "new_instance header trailer k = (\<lambda>w.
     (Inr (length (lists w)),
      w\<lparr>lists := lists w @ [\<lparr>d_header = header, d_trailer = trailer, d_size = k\<rparr>]\<rparr>))"

definition DoublyLinkedBase_init :: "('a world, nat) prog" where
  "DoublyLinkedBase_init =
     bnd (Node_new None None None) (\<lambda>header.
     bnd (Node_new None None None) (\<lambda>trailer.
     bnd (set_next header trailer) (\<lambda>_.
     bnd (set_prev trailer header) (\<lambda>_.
     new_instance header trailer 0))))"

definition len :: "nat \<Rightarrow> ('a world, int) prog" where
  "len self = get_size self"

definition is_empty :: "nat \<Rightarrow> ('a world, bool) prog" where
  "is_empty self = bnd (get_size self) (\<lambda>k. ret (k = 0))"

definition insert_between :: "nat \<Rightarrow> 'a option \<Rightarrow> ref \<Rightarrow> ref \<Rightarrow> ('a world, ref) prog" where
  "insert_between self e predecessor successor =
     bnd (Node_new e predecessor successor) (\<lambda>newest.
     bnd (set_next predecessor newest) (\<lambda>_.
     bnd (set_prev successor newest) (\<lambda>_.
     bnd (get_size self) (\<lambda>k.
     bnd (set_size self (k + 1)) (\<lambda>_.
     ret newest)))))"

definition delete_node :: "nat \<Rightarrow> ref \<Rightarrow> ('a world, 'a option) prog" where
  "delete_node self node =
     bnd (get_prev node) (\<lambda>predecessor.
     bnd (get_next node) (\<lambda>successor.
     bnd (set_next predecessor successor) (\<lambda>_.
     bnd (set_prev successor predecessor) (\<lambda>_.
     bnd (get_size self) (\<lambda>k.
     bnd (set_size self (k - 1)) (\<lambda>_.
     bnd (get_element node) (\<lambda>element.
     bnd (set_prev node None) (\<lambda>_.
     bnd (set_next node None) (\<lambda>_.
     bnd (set_element node None) (\<lambda>_.
     ret element))))))))))"

section \<open>\<^verbatim>\<open>LinkedDeque\<close>\<close>

text \<open>
  The four accessors run \<^verbatim>\<open>raise Empty('Deque is empty.')\<close> on an empty deque.
  \<^verbatim>\<open>doubleLinkNode.py\<close> neither defines nor imports \<^verbatim>\<open>Empty\<close> (the class of that
  name is in \<^verbatim>\<open>ch06/arrayStack.py\<close>), so evaluating the name raises \<^verbatim>\<open>NameError\<close>
  before any exception object is made.
\<close>

definition LinkedDeque_first :: "nat \<Rightarrow> ('a world, 'a option) prog" where
  "LinkedDeque_first self =
     bnd (is_empty self) (\<lambda>b.
     if b then throw (NameError ''name Empty is not defined'')
     else bnd (get_header self) (\<lambda>h.
          bnd (get_next h) (\<lambda>n.
          get_element n)))"

definition LinkedDeque_last :: "nat \<Rightarrow> ('a world, 'a option) prog" where
  "LinkedDeque_last self =
     bnd (is_empty self) (\<lambda>b.
     if b then throw (NameError ''name Empty is not defined'')
     else bnd (get_trailer self) (\<lambda>t.
          bnd (get_prev t) (\<lambda>n.
          get_element n)))"

definition LinkedDeque_insert_first :: "nat \<Rightarrow> 'a option \<Rightarrow> ('a world, unit) prog" where
  "LinkedDeque_insert_first self e =
     bnd (get_header self) (\<lambda>h.
     bnd (get_next h) (\<lambda>n.
     bnd (insert_between self e h n) (\<lambda>_.
     ret ())))"

definition LinkedDeque_insert_last :: "nat \<Rightarrow> 'a option \<Rightarrow> ('a world, unit) prog" where
  "LinkedDeque_insert_last self e =
     bnd (get_trailer self) (\<lambda>t.
     bnd (get_prev t) (\<lambda>n.
     bnd (insert_between self e n t) (\<lambda>_.
     ret ())))"

definition LinkedDeque_delete_first :: "nat \<Rightarrow> ('a world, 'a option) prog" where
  "LinkedDeque_delete_first self =
     bnd (is_empty self) (\<lambda>b.
     if b then throw (NameError ''name Empty is not defined'')
     else bnd (get_header self) (\<lambda>h.
          bnd (get_next h) (\<lambda>n.
          delete_node self n)))"

definition LinkedDeque_delete_last :: "nat \<Rightarrow> ('a world, 'a option) prog" where
  "LinkedDeque_delete_last self =
     bnd (is_empty self) (\<lambda>b.
     if b then throw (NameError ''name Empty is not defined'')
     else bnd (get_trailer self) (\<lambda>t.
          bnd (get_prev t) (\<lambda>n.
          delete_node self n)))"

section \<open>\<^verbatim>\<open>PositionalList\<close>\<close>

subsection \<open>\<^verbatim>\<open>Position\<close>\<close>

definition Position_element :: "Position \<Rightarrow> ('a world, 'a option) prog" where
  "Position_element self = get_element (p_node self)"

text \<open>
  \<^verbatim>\<open>__eq__\<close>: \<open>other\<close> is any object; \<open>None\<close> stands for one that is not a
  \<^verbatim>\<open>Position\<close>.
\<close>

definition Position_eq :: "Position \<Rightarrow> Position option \<Rightarrow> bool" where
  "Position_eq self other =
     (case other of None \<Rightarrow> False | Some q \<Rightarrow> p_node q = p_node self)"

definition Position_ne :: "Position \<Rightarrow> Position option \<Rightarrow> bool" where
  "Position_ne self other = (\<not> Position_eq self other)"

subsection \<open>Utility methods\<close>

text \<open>
  \<^verbatim>\<open>_validate\<close>: the argument is any object; \<open>None\<close> stands for one that is not a
  \<^verbatim>\<open>Position\<close> (Python's \<^verbatim>\<open>None\<close>, which \<^verbatim>\<open>first\<close> returns on an empty list,
  is one).
\<close>

definition validate :: "nat \<Rightarrow> Position option \<Rightarrow> ('a world, ref) prog" where
  "validate self p =
     (case p of
        None \<Rightarrow> throw (TypeError ''p must be proper Position type.'')
      | Some pos \<Rightarrow>
          if p_container pos \<noteq> self
          then throw (ValueError ''p does not belong to this container.'')
          else bnd (get_next (p_node pos)) (\<lambda>nx.
               if nx = None then throw (ValueError ''p is no longer valid.'')
               else ret (p_node pos)))"

definition make_position :: "nat \<Rightarrow> ref \<Rightarrow> ('a world, Position option) prog" where
  "make_position self node =
     bnd (get_header self) (\<lambda>h.
     if node = h then ret None
     else bnd (get_trailer self) (\<lambda>t.
          if node = t then ret None
          else ret (Some \<lparr>p_container = self, p_node = node\<rparr>)))"

subsection \<open>Accessors\<close>

definition PositionalList_first :: "nat \<Rightarrow> ('a world, Position option) prog" where
  "PositionalList_first self =
     bnd (get_header self) (\<lambda>h.
     bnd (get_next h) (\<lambda>n.
     make_position self n))"

definition PositionalList_last :: "nat \<Rightarrow> ('a world, Position option) prog" where
  "PositionalList_last self =
     bnd (get_trailer self) (\<lambda>t.
     bnd (get_prev t) (\<lambda>n.
     make_position self n))"

definition PositionalList_before :: "nat \<Rightarrow> Position option \<Rightarrow> ('a world, Position option) prog" where
  "PositionalList_before self p =
     bnd (validate self p) (\<lambda>node.
     bnd (get_prev node) (\<lambda>n.
     make_position self n))"

definition PositionalList_after :: "nat \<Rightarrow> Position option \<Rightarrow> ('a world, Position option) prog" where
  "PositionalList_after self p =
     bnd (validate self p) (\<lambda>node.
     bnd (get_next node) (\<lambda>n.
     make_position self n))"

subsection \<open>Mutators\<close>

text \<open>The override of \<^verbatim>\<open>_insert_between\<close> that returns a \<^verbatim>\<open>Position\<close>.\<close>

definition PositionalList_insert_between ::
    "nat \<Rightarrow> 'a option \<Rightarrow> ref \<Rightarrow> ref \<Rightarrow> ('a world, Position option) prog" where
  "PositionalList_insert_between self e predecessor successor =
     bnd (insert_between self e predecessor successor) (\<lambda>node.
     make_position self node)"

definition PositionalList_add_first :: "nat \<Rightarrow> 'a option \<Rightarrow> ('a world, Position option) prog" where
  "PositionalList_add_first self e =
     bnd (get_header self) (\<lambda>h.
     bnd (get_next h) (\<lambda>n.
     PositionalList_insert_between self e h n))"

definition PositionalList_add_last :: "nat \<Rightarrow> 'a option \<Rightarrow> ('a world, Position option) prog" where
  "PositionalList_add_last self e =
     bnd (get_trailer self) (\<lambda>t.
     bnd (get_prev t) (\<lambda>n.
     PositionalList_insert_between self e n t))"

definition PositionalList_add_before ::
    "nat \<Rightarrow> Position option \<Rightarrow> 'a option \<Rightarrow> ('a world, Position option) prog" where
  "PositionalList_add_before self p e =
     bnd (validate self p) (\<lambda>original.
     bnd (get_prev original) (\<lambda>n.
     PositionalList_insert_between self e n original))"

definition PositionalList_add_after ::
    "nat \<Rightarrow> Position option \<Rightarrow> 'a option \<Rightarrow> ('a world, Position option) prog" where
  "PositionalList_add_after self p e =
     bnd (validate self p) (\<lambda>original.
     bnd (get_next original) (\<lambda>n.
     PositionalList_insert_between self e original n))"

definition PositionalList_delete :: "nat \<Rightarrow> Position option \<Rightarrow> ('a world, 'a option) prog" where
  "PositionalList_delete self p =
     bnd (validate self p) (\<lambda>original.
     delete_node self original)"

definition PositionalList_replace ::
    "nat \<Rightarrow> Position option \<Rightarrow> 'a option \<Rightarrow> ('a world, 'a option) prog" where
  "PositionalList_replace self p e =
     bnd (validate self p) (\<lambda>original.
     bnd (get_element original) (\<lambda>old_value.
     bnd (set_element original e) (\<lambda>_.
     ret old_value)))"

subsection \<open>Forward iteration\<close>

text \<open>
  \<^verbatim>\<open>__iter__\<close> is a generator. Run to its end with no other operation in between, it
  yields a list of elements and then either stops or raises; the loop follows the
  store's links and need not end, so the result is optional.
\<close>

partial_function (option) iter_loop ::
    "nat \<Rightarrow> Position option \<Rightarrow> 'a world \<Rightarrow> ('a option list \<times> error option) option" where
  "iter_loop self cursor w =
     (case cursor of
        None \<Rightarrow> Some ([], None)
      | Some c \<Rightarrow>
          (case Position_element c w of
             (Inl e, w1) \<Rightarrow> Some ([], Some e)
           | (Inr x, w1) \<Rightarrow>
               (case PositionalList_after self (Some c) w1 of
                  (Inl e, w2) \<Rightarrow> Some ([x], Some e)
                | (Inr cursor', w2) \<Rightarrow>
                    Option.bind (iter_loop self cursor' w2) (\<lambda>(ys, r). Some (x # ys, r)))))"

definition PositionalList_iter :: "nat \<Rightarrow> 'a world \<Rightarrow> ('a option list \<times> error option) option" where
  "PositionalList_iter self w =
     (case PositionalList_first self w of
        (Inl e, w1) \<Rightarrow> Some ([], Some e)
      | (Inr cursor, w1) \<Rightarrow> iter_loop self cursor w1)"

section \<open>Programs\<close>

text \<open>
  The callers' programs that the properties below run: each creates its containers
  with the constructor and then calls the operations in turn, passing on what earlier
  calls returned. An exception ends the program.
\<close>

text \<open>\<^verbatim>\<open>p.element()\<close> on what a call returned, which may be \<^verbatim>\<open>None\<close>.\<close>

definition element_of :: "Position option \<Rightarrow> ('a world, 'a option) prog" where
  "element_of p =
     (case p of
        None \<Rightarrow> throw (AttributeError ''NoneType object has no attribute element'')
      | Some q \<Rightarrow> Position_element q)"



text \<open>
  \<^verbatim>\<open>L = PositionalList(); p = L.add_last(10); q = L.add_after(p, 15);
  L.add_first(5); L.add_before(q, 12); L.add_last(20); q.element()\<close>
\<close>

definition stable_position_program :: "(int world, int option) prog" where
  "stable_position_program =
     bnd DoublyLinkedBase_init (\<lambda>L.
     bnd (PositionalList_add_last L (Some 10)) (\<lambda>p.
     bnd (PositionalList_add_after L p (Some 15)) (\<lambda>q.
     bnd (PositionalList_add_first L (Some 5)) (\<lambda>_.
     bnd (PositionalList_add_before L q (Some 12)) (\<lambda>_.
     bnd (PositionalList_add_last L (Some 20)) (\<lambda>_.
     element_of q))))))"

text \<open>\<^verbatim>\<open>L = PositionalList(); L.first()\<close> and \<^verbatim>\<open>D = LinkedDeque(); D.first()\<close>\<close>

definition empty_list_program :: "(int world, Position option) prog" where
  "empty_list_program = bnd DoublyLinkedBase_init (\<lambda>L. PositionalList_first L)"

definition empty_deque_program :: "(int world, int option) prog" where
  "empty_deque_program = bnd DoublyLinkedBase_init (\<lambda>D. LinkedDeque_first D)"

text \<open>
  \<^verbatim>\<open>L = PositionalList(); p = L.add_first(1); L.add_last(2); L.delete(p); len(L)\<close>
\<close>

definition counting_program :: "(int world, int) prog" where
  "counting_program =
     bnd DoublyLinkedBase_init (\<lambda>L.
     bnd (PositionalList_add_first L (Some 1)) (\<lambda>p.
     bnd (PositionalList_add_last L (Some 2)) (\<lambda>_.
     bnd (PositionalList_delete L p) (\<lambda>_.
     len L))))"

text \<open>
  \<^verbatim>\<open>L = PositionalList(); L.add_last(10); L.add_last(20); list(L)\<close>: what the iteration
  yields and the error that ended the program, if one did.
\<close>

definition iteration_program :: "int world \<Rightarrow> (int option list \<times> error option) option" where
  "iteration_program w =
     (case bnd DoublyLinkedBase_init (\<lambda>L.
           bnd (PositionalList_add_last L (Some 10)) (\<lambda>_.
           bnd (PositionalList_add_last L (Some 20)) (\<lambda>_.
           ret L))) w of
        (Inl e, w1) \<Rightarrow> Some ([], Some e)
      | (Inr L, w1) \<Rightarrow> PositionalList_iter L w1)"

text \<open>
  \<^verbatim>\<open>L = PositionalList(); n = len(L); p = L.add_last(7); e = L.delete(p); (n, e, len(L))\<close>
\<close>

definition round_trip_program :: "(int world, int \<times> int option \<times> int) prog" where
  "round_trip_program =
     bnd DoublyLinkedBase_init (\<lambda>L.
     bnd (len L) (\<lambda>n.
     bnd (PositionalList_add_last L (Some 7)) (\<lambda>p.
     bnd (PositionalList_delete L p) (\<lambda>e.
     bnd (len L) (\<lambda>m.
     ret (n, e, m))))))"

text \<open>
  \<^verbatim>\<open>L = PositionalList(); p = L.add_last(10); L.delete(p); p.element()\<close>
\<close>

definition stale_element_program :: "(int world, int option) prog" where
  "stale_element_program =
     bnd DoublyLinkedBase_init (\<lambda>L.
     bnd (PositionalList_add_last L (Some 10)) (\<lambda>p.
     bnd (PositionalList_delete L p) (\<lambda>_.
     element_of p)))"

section \<open>Properties\<close>

subsection \<open>No node can be made\<close>

lemma bnd_raises: "m w = (Inl e, w') \<Longrightarrow> bnd m f w = (Inl e, w')"
  by (simp add: bnd_def)

lemma bnd_returns: "m w = (Inr x, w') \<Longrightarrow> bnd m f w = f x w'"
  by (simp add: bnd_def)

lemma Node_new_raises:
  "Node_new e p n w = (Inl (AttributeError ''_Node object has no attribute _element''), w)"
  by (simp add: Node_new_def Node_init_def setattr_slots_def Node_slots_def)

lemma init_raises:
  "DoublyLinkedBase_init w = (Inl (AttributeError ''_Node object has no attribute _element''), w)"
  by (simp add: DoublyLinkedBase_init_def bnd_raises [OF Node_new_raises])

lemma insert_between_raises:
  "insert_between self e predecessor successor w = (Inl (AttributeError ''_Node object has no attribute _element''), w)"
  by (simp add: insert_between_def bnd_raises [OF Node_new_raises])

lemma PositionalList_insert_between_raises:
  "PositionalList_insert_between self e predecessor successor w = (Inl (AttributeError ''_Node object has no attribute _element''), w)"
  by (simp add: PositionalList_insert_between_def bnd_raises [OF insert_between_raises])

lemma program_raises:
  "bnd DoublyLinkedBase_init f w = (Inl (AttributeError ''_Node object has no attribute _element''), w)"
  by (rule bnd_raises [OF init_raises])

text \<open>
  Claim C9. The constructor of \<^verbatim>\<open>_Node\<close>, which \<^verbatim>\<open>_insert_between\<close> calls first,
  raises \<^verbatim>\<open>AttributeError\<close> at its first assignment for every element and every pair
  of neighbours: \<^verbatim>\<open>_element\<close> is not among the slots of the class.
\<close>

theorem Node_init_raises:
  "Node_init e p n = Inl (AttributeError ''_Node object has no attribute _element'')"
  by (simp add: Node_init_def setattr_slots_def Node_slots_def)

subsection \<open>The insertions never return\<close>

lemma reads_keep_store:
  "snd (get_header self w) = w" "snd (get_trailer self w) = w"
  "snd (get_prev r w) = w" "snd (get_next r w) = w"
  by (auto simp: get_header_def get_trailer_def get_self_def get_prev_def get_next_def
      getattr_node_def as_reference_def bnd_def ret_def throw_def
      split: option.splits sum.splits prod.splits attribute.splits)

lemma validate_keeps_store: "snd (validate self p w) = w"
  using reads_keep_store(4) [of "p_node (the p)" w]
  by (cases p; cases "get_next (p_node (the p)) w"; cases "fst (get_next (p_node (the p)) w)")
    (auto simp: validate_def bnd_def ret_def throw_def)

lemma add_last_raises:
  "\<exists>err. PositionalList_add_last self e w = (Inl err, w)"
proof (cases "get_trailer self w")
  case (Pair r w1)
  with reads_keep_store(2) [of self w] have w1: "w1 = w" by simp
  show ?thesis
  proof (cases r)
    case (Inl err)
    with Pair w1 show ?thesis by (simp add: PositionalList_add_last_def bnd_def)
  next
    case (Inr t)
    obtain r2 w2 where g: "get_prev t w = (r2, w2)" by (cases "get_prev t w")
    with reads_keep_store(3) [of t w] have w2: "w2 = w" by simp
    from Pair Inr w1 g w2 show ?thesis
      by (cases r2)
        (simp_all add: PositionalList_add_last_def bnd_def PositionalList_insert_between_raises)
  qed
qed

lemma add_first_raises:
  "\<exists>err. PositionalList_add_first self e w = (Inl err, w)"
proof (cases "get_header self w")
  case (Pair r w1)
  with reads_keep_store(1) [of self w] have w1: "w1 = w" by simp
  show ?thesis
  proof (cases r)
    case (Inl err)
    with Pair w1 show ?thesis by (simp add: PositionalList_add_first_def bnd_def)
  next
    case (Inr h)
    obtain r2 w2 where g: "get_next h w = (r2, w2)" by (cases "get_next h w")
    with reads_keep_store(4) [of h w] have w2: "w2 = w" by simp
    from Pair Inr w1 g w2 show ?thesis
      by (cases r2)
        (simp_all add: PositionalList_add_first_def bnd_def PositionalList_insert_between_raises)
  qed
qed

lemma add_after_raises:
  "\<exists>err. PositionalList_add_after self p e w = (Inl err, w)"
proof (cases "validate self p w")
  case (Pair r w1)
  with validate_keeps_store [of self p w] have w1: "w1 = w" by simp
  show ?thesis
  proof (cases r)
    case (Inl err)
    with Pair w1 show ?thesis by (simp add: PositionalList_add_after_def bnd_def)
  next
    case (Inr original)
    obtain r2 w2 where g: "get_next original w = (r2, w2)" by (cases "get_next original w")
    with reads_keep_store(4) [of original w] have w2: "w2 = w" by simp
    from Pair Inr w1 g w2 show ?thesis
      by (cases r2)
        (simp_all add: PositionalList_add_after_def bnd_def PositionalList_insert_between_raises)
  qed
qed

lemma add_before_raises:
  "\<exists>err. PositionalList_add_before self p e w = (Inl err, w)"
proof (cases "validate self p w")
  case (Pair r w1)
  with validate_keeps_store [of self p w] have w1: "w1 = w" by simp
  show ?thesis
  proof (cases r)
    case (Inl err)
    with Pair w1 show ?thesis by (simp add: PositionalList_add_before_def bnd_def)
  next
    case (Inr original)
    obtain r2 w2 where g: "get_prev original w = (r2, w2)" by (cases "get_prev original w")
    with reads_keep_store(3) [of original w] have w2: "w2 = w" by simp
    from Pair Inr w1 g w2 show ?thesis
      by (cases r2)
        (simp_all add: PositionalList_add_before_def bnd_def PositionalList_insert_between_raises)
  qed
qed


subsection \<open>Every program stops where it creates its container\<close>



text \<open>
  Claim C3. The program that takes a position \<open>q\<close> from \<^verbatim>\<open>add_after\<close>, inserts
  elsewhere and then reads \<open>q\<close> raises \<^verbatim>\<open>AttributeError\<close> where the list is created;
  and in every store, for every list, position and element, \<^verbatim>\<open>add_after\<close> raises and
  leaves the store as it was, so it returns no position at all.
\<close>

theorem add_after_returns_no_position:
  "stable_position_program w = (Inl (AttributeError ''_Node object has no attribute _element''), w) \<and>
   (\<exists>err. PositionalList_add_after self p e w' = (Inl err, w'))"
  using add_after_raises [of self p e w']
  unfolding stable_position_program_def by (simp add: program_raises)

text \<open>
  Claim C4. \<^verbatim>\<open>PositionalList()\<close> followed by \<^verbatim>\<open>first()\<close>, and \<^verbatim>\<open>LinkedDeque()\<close>
  followed by \<^verbatim>\<open>first()\<close>, both raise \<^verbatim>\<open>AttributeError\<close> where the container is
  created, from every store: there is no empty container on which \<^verbatim>\<open>first()\<close> could
  return \<^verbatim>\<open>None\<close> or raise \<^verbatim>\<open>Empty\<close>.
\<close>

theorem empty_container_is_never_made:
  "empty_list_program w = (Inl (AttributeError ''_Node object has no attribute _element''), w) \<and> empty_deque_program w = (Inl (AttributeError ''_Node object has no attribute _element''), w)"
  unfolding empty_list_program_def empty_deque_program_def by (simp add: program_raises)

text \<open>
  Were an instance with \<^verbatim>\<open>_size == 0\<close> to exist, the four deque accessors would raise
  \<^verbatim>\<open>NameError\<close> on it, not \<^verbatim>\<open>Empty\<close>.
\<close>

lemma empty_deque_raises_NameError:
  assumes "is_empty self w = (Inr True, w')"
  shows "LinkedDeque_first self w = (Inl (NameError ''name Empty is not defined''), w')"
    and "LinkedDeque_last self w = (Inl (NameError ''name Empty is not defined''), w')"
    and "LinkedDeque_delete_first self w = (Inl (NameError ''name Empty is not defined''), w')"
    and "LinkedDeque_delete_last self w = (Inl (NameError ''name Empty is not defined''), w')"
  using assms
  by (simp_all add: LinkedDeque_first_def LinkedDeque_last_def LinkedDeque_delete_first_def
      LinkedDeque_delete_last_def bnd_def throw_def)

text \<open>
  Claim C5. The program that creates a list, adds two elements, deletes one and asks for
  the length raises \<^verbatim>\<open>AttributeError\<close> where the list is created; and in every store,
  for every list and element, \<^verbatim>\<open>add_first\<close> and \<^verbatim>\<open>add_last\<close> raise and leave the
  store as it was, so no add is ever performed and no length is ever returned from a
  list that started empty.
\<close>

theorem no_add_is_performed:
  "counting_program w = (Inl (AttributeError ''_Node object has no attribute _element''), w) \<and>
   (\<exists>err. PositionalList_add_first self e w' = (Inl err, w')) \<and>
   (\<exists>err. PositionalList_add_last self e w' = (Inl err, w'))"
  using add_first_raises [of self e w'] add_last_raises [of self e w']
  unfolding counting_program_def by (simp add: program_raises)

text \<open>
  Claim C6. The program that creates a list, adds two elements and iterates over it
  yields nothing: it ends with \<^verbatim>\<open>AttributeError\<close> where the list is created, before
  the iteration starts.
\<close>

theorem iteration_yields_nothing:
  "iteration_program w = Some ([], Some (AttributeError ''_Node object has no attribute _element''))"
  unfolding iteration_program_def by (simp add: program_raises)

text \<open>
  Claim C7. The program that creates a list, adds \<open>e\<close> at the end, deletes the returned
  position and compares the lengths raises \<^verbatim>\<open>AttributeError\<close> where the list is
  created; and in every store, for every list and element, \<^verbatim>\<open>add_last\<close> raises and
  leaves the store as it was, so there is no returned position to delete.
\<close>

theorem add_last_returns_no_position:
  "round_trip_program w = (Inl (AttributeError ''_Node object has no attribute _element''), w) \<and>
   (\<exists>err. PositionalList_add_last self e w' = (Inl err, w'))"
  using add_last_raises [of self e w']
  unfolding round_trip_program_def by (simp add: program_raises)

text \<open>
  Claim C10. The program that creates a list, adds an element, deletes its position
  \<open>p\<close> and calls \<^verbatim>\<open>p.element()\<close> raises \<^verbatim>\<open>AttributeError\<close> where the list is created,
  from every store: \<^verbatim>\<open>element()\<close> is never reached and returns no \<^verbatim>\<open>None\<close>.
\<close>

theorem stale_element_raises:
  "stale_element_program w = (Inl (AttributeError ''_Node object has no attribute _element''), w)"
  unfolding stale_element_program_def by (rule program_raises)

subsection \<open>Equality of positions\<close>

text \<open>
  Claim C8, as amended. Two positions are equal under \<^verbatim>\<open>__eq__\<close> exactly when they
  reference the same node, and unequal under \<^verbatim>\<open>__ne__\<close> exactly when they do not; an
  object that is not a position equals none. The comparison reads neither the container
  of a position, nor the store, nor an element.
\<close>

theorem position_equality_is_node_identity:
  "(Position_eq p (Some q) \<longleftrightarrow> p_node p = p_node q) \<and>
   (Position_ne p (Some q) \<longleftrightarrow> p_node p \<noteq> p_node q) \<and>
   \<not> Position_eq p None"
  by (auto simp: Position_eq_def Position_ne_def)

text \<open>
  Claim C8, as stated, fails: two positions made for the same node with different
  containers are equal, though they are not positions in the same list.
\<close>

theorem position_equality_ignores_container:
  "\<not> (Position_eq \<lparr>p_container = 0, p_node = Some 4\<rparr>
         (Some \<lparr>p_container = 1, p_node = Some 4\<rparr>) \<longleftrightarrow>
       p_node \<lparr>p_container = 0, p_node = Some 4\<rparr> =
         p_node \<lparr>p_container = 1, p_node = Some 4\<rparr> \<and>
       p_container \<lparr>p_container = 0, p_node = Some 4\<rparr> =
         p_container \<lparr>p_container = 1, p_node = Some 4\<rparr>)"
  by (simp add: Position_eq_def)

end
